theory Spec2Isabelle
  imports Complex_Main "HOL-Library.Sublist" "HOL-Library.Word"
begin

section \<open>Retrieval over uploaded documents: \<open>src/lib/ai/rag.ts\<close>\<close>

text \<open>
  The module has three functions: \<open>extractTextFromFile\<close>, \<open>indexDocument\<close> and the
  tool \<open>searchFileContentTool\<close>. Everything else it touches is a collaborator that
  lives outside the file: the Appwrite admin client (storage download, document
  creation, document listing), the PDF parser, the embedding model and the process
  environment. The collaborators are fields of the record \<open>env\<close>; the contents of the
  vector collection and the sequence of calls made to the collaborators are the
  state, the record \<open>world\<close>, which every function takes and returns.

  A JavaScript string is a sequence of UTF-16 code units; a \<open>char\<close> of the model
  stands for one code unit. Console output is not part of the model.
\<close>

subsection \<open>Data\<close>

type_synonym bytes = "8 word list"

type_synonym embedding = "real list"

text \<open>
  A thrown value: \<open>Error\<close> is the \<open>new Error(message)\<close> that the file itself throws,
  \<open>Rejected\<close> is a rejection that comes out of a collaborator.
\<close>

datatype error = Error string | Rejected string

text \<open>A document of the vector collection, as \<open>createDocument\<close> writes it.\<close>

record chunk_doc =
  docId :: string
  fileId :: string
  content :: string
  vector :: embedding

text \<open>The calls that leave the process.\<close>

datatype call =
    GetFileDownload string string
  | EmbedQuery string
  | CreateDocument string string chunk_doc
  | ListDocuments string string string

record world =
  documents :: "chunk_doc list"
  calls :: "call list"

text \<open>
  The collaborators. A collaborator whose answer may change from one call to the
  next takes the number of calls made so far as its first argument.
  \<open>vectorCollection\<close> is \<open>process.env.NEXT_PUBLIC_APPWRITE_VECTOR_COLLECTION\<close>;
  \<open>bucketId\<close> and \<open>databaseId\<close> are the two fields of \<open>appwriteConfig\<close> that are read;
  \<open>parse\<close> is \<open>pdf-parse\<close>, giving the \<open>text\<close> field of its result; \<open>toStringUtf8\<close>
  is \<open>Buffer.toString("utf-8")\<close>; \<open>createDocumentFault\<close> says whether a write is
  rejected; \<open>listDocuments\<close> is the store's answer, over the collection's contents,
  to the single query \<open>Query.contains("content", query)\<close>; \<open>uniqueId\<close> is
  \<open>ID.unique()\<close>.
\<close>

record env =
  vectorCollection :: "string option"
  bucketId :: string
  databaseId :: string
  createAdminClient :: "nat \<Rightarrow> error option"
  getFileDownload :: "nat \<Rightarrow> string \<Rightarrow> string \<Rightarrow> error + bytes"
  parse :: "bytes \<Rightarrow> error + string"
  toStringUtf8 :: "bytes \<Rightarrow> string"
  embedQuery :: "nat \<Rightarrow> string \<Rightarrow> error + embedding"
  createDocumentFault :: "nat \<Rightarrow> chunk_doc \<Rightarrow> error option"
  listDocuments :: "nat \<Rightarrow> chunk_doc list \<Rightarrow> string \<Rightarrow> error + chunk_doc list"
  uniqueId :: "nat \<Rightarrow> string"

definition tick :: "world \<Rightarrow> nat" where
  "tick w = length (calls w)"

definition record_call :: "call \<Rightarrow> world \<Rightarrow> world" where
  "record_call c w = w\<lparr>calls := calls w @ [c]\<rparr>"

text \<open>
  \<open>!process.env.NEXT_PUBLIC_APPWRITE_VECTOR_COLLECTION\<close> holds for an unset variable
  and for the empty string.
\<close>

definition collectionId :: "env \<Rightarrow> string" where
  "collectionId e = (case vectorCollection e of None \<Rightarrow> [] | Some c \<Rightarrow> c)"

definition configured :: "env \<Rightarrow> bool" where
  "configured e = (collectionId e \<noteq> [])"

subsection \<open>\<open>extractTextFromFile\<close>\<close>

definition extractTextFromFile :: "env \<Rightarrow> bytes \<Rightarrow> string \<Rightarrow> error + string" where
  "extractTextFromFile e fileBuffer mimeType =
     (if mimeType = ''application/pdf'' then parse e fileBuffer
      else if prefix ''text/'' mimeType then Inr (toStringUtf8 e fileBuffer)
      else Inl (Error (''Unsupported file type for indexing: '' @ mimeType)))"

subsection \<open>Chunking: \<open>text.match(/[\s\S]{1,1000}/g) || []\<close>\<close>

text \<open>
  The global match of a greedy \<open>{1,1000}\<close> over a class that accepts every code unit
  cuts the text, left to right, into pieces of 1000 code units, the last one shorter
  when the length is not a multiple of 1000. On the empty text \<open>match\<close> gives
  \<open>null\<close>, replaced by the empty array.
\<close>

function chunks :: "string \<Rightarrow> string list" where
  "chunks text = (if text = [] then [] else take 1000 text # chunks (drop 1000 text))"
  by pat_completeness auto
termination
  by (relation "measure length") auto

declare chunks.simps [simp del]

subsection \<open>\<open>indexDocument\<close>\<close>

text \<open>How the \<open>for\<close> loop over the chunks is left without a throw.\<close>

datatype loop_exit = Completed | SkippedStorage

text \<open>
  \<open>databases.createDocument(databaseId, collection, ID.unique(), {fileId, content, vector})\<close>:
  a rejected write leaves the collection as it was.
\<close>

definition createDocument :: "env \<Rightarrow> string \<Rightarrow> string \<Rightarrow> embedding \<Rightarrow> world \<Rightarrow> (error + unit) \<times> world" where
  "createDocument e fid chunk vec w =
     (let d = \<lparr>docId = uniqueId e (tick w), fileId = fid, content = chunk, vector = vec\<rparr>;
          w1 = record_call (CreateDocument (databaseId e) (collectionId e) d) w
      in case createDocumentFault e (tick w) d of
           Some err \<Rightarrow> (Inl err, w1)
         | None \<Rightarrow> (Inr (), w1\<lparr>documents := documents w1 @ [d]\<rparr>))"

text \<open>
  The loop \<open>for (const chunk of chunks)\<close>: embed the chunk, then test the
  environment variable (a \<open>return\<close> from inside the loop), then write.
\<close>

fun indexChunks :: "env \<Rightarrow> string \<Rightarrow> string list \<Rightarrow> world \<Rightarrow> (error + loop_exit) \<times> world" where
  "indexChunks e fid [] w = (Inr Completed, w)"
| "indexChunks e fid (chunk # rest) w =
     (let w1 = record_call (EmbedQuery chunk) w
      in case embedQuery e (tick w) chunk of
           Inl err \<Rightarrow> (Inl err, w1)
         | Inr vec \<Rightarrow>
             if \<not> configured e then (Inr SkippedStorage, w1)
             else (case createDocument e fid chunk vec w1 of
                     (Inl err, w2) \<Rightarrow> (Inl err, w2)
                   | (Inr u, w2) \<Rightarrow> indexChunks e fid rest w2))"

text \<open>The body of the \<open>try\<close> block.\<close>

definition indexBody :: "env \<Rightarrow> string \<Rightarrow> string \<Rightarrow> string \<Rightarrow> world \<Rightarrow> (error + loop_exit) \<times> world" where
  "indexBody e fid bucketFileId mimeType w =
     (let w1 = record_call (GetFileDownload (bucketId e) bucketFileId) w
      in case getFileDownload e (tick w) (bucketId e) bucketFileId of
           Inl err \<Rightarrow> (Inl err, w1)
         | Inr fileBuffer \<Rightarrow>
             (case extractTextFromFile e fileBuffer mimeType of
                Inl err \<Rightarrow> (Inl err, w1)
              | Inr text \<Rightarrow> indexChunks e fid (chunks text) w1))"

text \<open>
  \<open>createAdminClient()\<close> is awaited before the \<open>try\<close>: its rejection is the only one
  that reaches the caller. The \<open>catch\<close> clause logs and falls through, so the
  promise resolves to \<open>undefined\<close> whichever way the body ended.
\<close>

definition indexDocument :: "env \<Rightarrow> string \<Rightarrow> string \<Rightarrow> string \<Rightarrow> world \<Rightarrow> (error + unit) \<times> world" where
  "indexDocument e fid bucketFileId mimeType w =
     (case createAdminClient e (tick w) of
        Some err \<Rightarrow> (Inl err, w)
      | None \<Rightarrow>
          (case indexBody e fid bucketFileId mimeType w of
             (Inl err, w') \<Rightarrow> (Inr (), w')
           | (Inr x, w') \<Rightarrow> (Inr (), w')))"

subsection \<open>\<open>searchFileContentTool\<close>\<close>

text \<open>\<open>Array.prototype.join\<close> on an array of strings.\<close>

fun join :: "string \<Rightarrow> string list \<Rightarrow> string" where
  "join sep [] = []"
| "join sep [x] = x"
| "join sep (x # y # ys) = x @ sep @ join sep (y # ys)"

definition separator :: string where
  "separator = CHR 0x0A # ''---'' @ [CHR 0x0A]"

text \<open>
  The two awaited calls inside the \<open>try\<close> block: embed the query, then list the
  documents of the collection whose content contains the query. The query vector
  is not passed on.
\<close>

definition searchBody :: "env \<Rightarrow> string \<Rightarrow> world \<Rightarrow> (error + chunk_doc list) \<times> world" where
  "searchBody e query w =
     (let w1 = record_call (EmbedQuery query) w
      in case embedQuery e (tick w) query of
           Inl err \<Rightarrow> (Inl err, w1)
         | Inr queryVector \<Rightarrow>
             (let w2 = record_call (ListDocuments (databaseId e) (collectionId e) query) w1
              in case listDocuments e (tick w1) (documents w1) query of
                   Inl err \<Rightarrow> (Inl err, w2)
                 | Inr results \<Rightarrow> (Inr results, w2)))"

text \<open>\<open>results.documents.map(d => d.content).join("\n---\n")\<close>\<close>

definition relevantContent :: "chunk_doc list \<Rightarrow> string" where
  "relevantContent results = join separator (map content results)"

definition searchFileContentTool :: "env \<Rightarrow> string \<Rightarrow> world \<Rightarrow> (error + string) \<times> world" where
  "searchFileContentTool e query w =
     (case createAdminClient e (tick w) of
        Some err \<Rightarrow> (Inl err, w)
      | None \<Rightarrow>
          if \<not> configured e then (Inr ''Vector search not configured.'', w)
          else (case searchBody e query w of
                  (Inl err, w') \<Rightarrow> (Inr ''Failed to search document content.'', w')
                | (Inr results, w') \<Rightarrow>
                    (Inr (if relevantContent results = []
                          then ''No relevant content found in documents.''
                          else relevantContent results), w')))"


subsection \<open>Reading the state\<close>

text \<open>The texts handed to the embedding model, in call order.\<close>

fun embedded :: "call list \<Rightarrow> string list" where
  "embedded [] = []"
| "embedded (EmbedQuery s # cs) = s # embedded cs"
| "embedded (c # cs) = embedded cs"

text \<open>The documents handed to \<open>createDocument\<close>, in call order.\<close>

fun attempted :: "call list \<Rightarrow> chunk_doc list" where
  "attempted [] = []"
| "attempted (CreateDocument db coll d # cs) = d # attempted cs"
| "attempted (c # cs) = attempted cs"

subsection \<open>A store shared by two users, and the files of the examples\<close>

text \<open>
  The examples run against one environment, \<open>storeit\<close>: the collection is
  configured, the bucket holds two plain-text files (three chunks and eighty
  chunks long), the PDF parser rejects what it is given, every embedding and every
  write succeeds, and the store lists, in insertion order, the documents whose
  content has the query as a substring. Buffers hold ASCII, which UTF-8 decodes
  byte by byte.
\<close>

definition asciiText :: "bytes \<Rightarrow> string" where
  "asciiText buf = map (\<lambda>b. char_of (unat b)) buf"

definition threeChunkFile :: bytes where
  "threeChunkFile = replicate 1000 0x61 @ replicate 1000 0x62 @ replicate 1000 0x63"

definition eightyChunkFile :: bytes where
  "eightyChunkFile = replicate 80000 0x61"

definition storeit :: env where
  "storeit =
     \<lparr>vectorCollection = Some ''file_embeddings'',
      bucketId = ''uploads'',
      databaseId = ''storeit'',
      createAdminClient = (\<lambda>t. None),
      getFileDownload = (\<lambda>t b f.
        if f = ''notes.txt'' then Inr threeChunkFile
        else if f = ''long.txt'' then Inr eightyChunkFile
        else Inl (Rejected ''File not found'')),
      parse = (\<lambda>buf. Inl (Rejected ''Invalid PDF structure'')),
      toStringUtf8 = asciiText,
      embedQuery = (\<lambda>t s. Inr [real (length s)]),
      createDocumentFault = (\<lambda>t d. None),
      listDocuments = (\<lambda>t ds q. Inr (filter (\<lambda>d. sublist q (content d)) ds)),
      uniqueId = (\<lambda>t. replicate (Suc t) CHR ''u'')\<rparr>"

text \<open>The same environment with a PDF parser that finds text.\<close>

definition readablePdf :: env where
  "readablePdf = storeit\<lparr>parse := (\<lambda>buf. Inr ''Quarterly report'')\<rparr>"

text \<open>The same environment with the collection variable unset.\<close>

definition unconfigured :: env where
  "unconfigured = storeit\<lparr>vectorCollection := None\<rparr>"

text \<open>The embedding model rejects every text that has the letter b in it.\<close>

definition rateLimited :: env where
  "rateLimited = storeit\<lparr>embedQuery := (\<lambda>t s.
     if CHR ''b'' \<in> set s then Inl (Rejected ''429 Too Many Requests'')
     else Inr [real (length s)])\<rparr>"

text \<open>The store rejects every write.\<close>

definition writesRejected :: env where
  "writesRejected = storeit\<lparr>createDocumentFault := (\<lambda>t d. Some (Rejected ''401 Unauthorized''))\<rparr>"

text \<open>
  The embedding model rejects the call made at tick 3, the second embedding of a
  run that starts on an empty log, and no other.
\<close>

definition flaky :: env where
  "flaky = storeit\<lparr>embedQuery := (\<lambda>t s.
     if t = 3 then Inl (Rejected ''429 Too Many Requests'') else Inr [real (length s)])\<rparr>"

text \<open>No admin client can be made.\<close>

definition clientDown :: env where
  "clientDown = storeit\<lparr>createAdminClient := (\<lambda>t. Some (Rejected ''Invalid endpoint URL''))\<rparr>"

text \<open>The embedding model rejects everything; the store rejects every listing.\<close>

definition embeddingDown :: env where
  "embeddingDown = storeit\<lparr>embedQuery := (\<lambda>t s. Inl (Rejected ''503 Service Unavailable''))\<rparr>"

definition listingDown :: env where
  "listingDown = storeit\<lparr>listDocuments := (\<lambda>t ds q. Inl (Rejected ''500 Server Error''))\<rparr>"

definition emptyStore :: world where
  "emptyStore = \<lparr>documents = [], calls = []\<rparr>"

text \<open>One chunk of a file of user A, one chunk of a file of user B.\<close>

definition docA :: chunk_doc where
  "docA = \<lparr>docId = ''chunk-a'', fileId = ''fileA'', content = ''alpha meeting notes'', vector = [1, 0]\<rparr>"

definition docB :: chunk_doc where
  "docB = \<lparr>docId = ''chunk-b'', fileId = ''fileB'', content = ''beta salary notes'', vector = [0, 1]\<rparr>"

definition twoTenants :: world where
  "twoTenants = \<lparr>documents = [docA, docB], calls = []\<rparr>"

text \<open>Six chunks, each with the word report in it.\<close>

definition report :: "string \<Rightarrow> chunk_doc" where
  "report n = \<lparr>docId = ''chunk-'' @ n, fileId = ''fileA'', content = ''report '' @ n, vector = []\<rparr>"

definition sixReports :: world where
  "sixReports =
     \<lparr>documents = [report ''1'', report ''2'', report ''3'', report ''4'', report ''5'', report ''6''],
      calls = []\<rparr>"

section \<open>Chunking\<close>

lemma chunks_Nil: "chunks [] = []"
  by (simp add: chunks.simps)

lemma chunks_nonempty: "s \<noteq> [] \<Longrightarrow> chunks s = take 1000 s # chunks (drop 1000 s)"
  by (subst chunks.simps) simp

lemma chunks_short: "s \<noteq> [] \<Longrightarrow> length s \<le> 1000 \<Longrightarrow> chunks s = [s]"
  by (simp add: chunks_nonempty chunks_Nil)

lemma chunks_append: "length xs = 1000 \<Longrightarrow> chunks (xs @ ys) = xs # chunks ys"
  by (subst chunks.simps) auto

lemma concat_chunks: "concat (chunks s) = s"
proof (induction s rule: chunks.induct)
  case (1 s)
  show ?case
  proof (cases "s = []")
    case True
    then show ?thesis by (simp add: chunks_Nil)
  next
    case False
    with 1 show ?thesis by (simp add: chunks_nonempty)
  qed
qed

lemma length_chunks: "length (chunks s) = (length s + 999) div 1000"
proof (induction s rule: chunks.induct)
  case (1 s)
  show ?case
  proof (cases "s = []")
    case True
    then show ?thesis by (simp add: chunks_Nil)
  next
    case False
    then have pos: "0 < length s" by simp
    have "length (chunks s) = Suc ((length s - 1000 + 999) div 1000)"
      using 1 False by (simp add: chunks_nonempty)
    also have "\<dots> = (length s + 999) div 1000"
    proof (cases "length s < 1000")
      case True
      from pos have e: "length s + 999 = (length s - 1) + 1000" by simp
      have "(length s - 1 + 1000) div 1000 = (length s - 1) div 1000 + 1"
        by (rule div_add_self2) simp
      with True show ?thesis unfolding e by simp
    next
      case False
      then have e: "length s + 999 = (length s - 1000 + 999) + 1000" by simp
      have "(length s - 1000 + 999 + 1000) div 1000 = (length s - 1000 + 999) div 1000 + 1"
        by (rule div_add_self2) simp
      then show ?thesis unfolding e by simp
    qed
    finally show ?thesis .
  qed
qed

lemma nth_chunks: "i < length (chunks s) \<Longrightarrow> chunks s ! i = take 1000 (drop (1000 * i) s)"
proof (induction s arbitrary: i rule: chunks.induct)
  case (1 s)
  show ?case
  proof (cases "s = []")
    case True
    with 1(2) show ?thesis by (simp add: chunks_Nil)
  next
    case False
    show ?thesis
    proof (cases i)
      case 0
      with False show ?thesis by (simp add: chunks_nonempty)
    next
      case (Suc j)
      with 1(2) False have "j < length (chunks (drop 1000 s))"
        by (simp add: chunks_nonempty)
      with 1(1) False have "chunks (drop 1000 s) ! j = take 1000 (drop (1000 * j) (drop 1000 s))"
        by blast
      with Suc False show ?thesis
        by (simp add: chunks_nonempty add.commute)
    qed
  qed
qed

lemma chunk_size: "c \<in> set (chunks s) \<Longrightarrow> 0 < length c \<and> length c \<le> 1000"
proof (induction s rule: chunks.induct)
  case (1 s)
  show ?case
  proof (cases "s = []")
    case True
    with 1(2) show ?thesis by (simp add: chunks_Nil)
  next
    case False
    with 1 show ?thesis by (auto simp: chunks_nonempty)
  qed
qed


lemma sublist_across_boundary:
  assumes "0 < m" and "0 < n"
  shows "sublist [x, y] (replicate m x @ replicate n y)"
proof -
  from assms obtain m' n' where m: "m = Suc m'" and n: "n = Suc n'"
    by (metis gr0_implies_Suc)
  have "replicate m x @ replicate n y = replicate m' x @ [x, y] @ replicate n' y"
    by (simp add: m n replicate_append_same)
  then show ?thesis
    by (simp only: sublist_appendI)
qed

lemma char_of_a: "char_of (97::nat) = CHR ''a''"
  by code_simp

lemma char_of_b: "char_of (98::nat) = CHR ''b''"
  by code_simp

lemma char_of_c: "char_of (99::nat) = CHR ''c''"
  by code_simp

lemma threeChunkFile_text:
  "asciiText threeChunkFile =
     replicate 1000 CHR ''a'' @ replicate 1000 CHR ''b'' @ replicate 1000 CHR ''c''"
  by (simp add: asciiText_def threeChunkFile_def char_of_a char_of_b char_of_c)

lemma threeChunkFile_chunks:
  "chunks (asciiText threeChunkFile) =
     [replicate 1000 CHR ''a'', replicate 1000 CHR ''b'', replicate 1000 CHR ''c'']"
  by (simp add: threeChunkFile_text chunks_append chunks_short)

lemma threeChunkFile_length: "length (asciiText threeChunkFile) = 3000"
  by (simp add: asciiText_def threeChunkFile_def)

lemma eightyChunkFile_length: "length (asciiText eightyChunkFile) = 80000"
  by (simp add: asciiText_def eightyChunkFile_def)

text \<open>
  C6. The chunking step has no overlap and no configuration: the chunks are the
  consecutive, disjoint pieces of the text, chunk \<open>i\<close> being the 1000 code units from
  position \<open>1000 * i\<close> on (fewer for the last chunk), so that the chunks put end to
  end are the text, every chunk has between 1 and 1000 code units, and there are
  \<open>\<lceil>length / 1000\<rceil>\<close> of them.
\<close>

theorem chunks_disjoint_cover:
  "concat (chunks s) = s
   \<and> length (chunks s) = (length s + 999) div 1000
   \<and> (\<forall>i < length (chunks s). chunks s ! i = take 1000 (drop (1000 * i) s))
   \<and> (\<forall>c \<in> set (chunks s). 0 < length c \<and> length c \<le> 1000)"
  using concat_chunks length_chunks nth_chunks chunk_size by blast

theorem chunks_disjoint_cover_witness:
  "chunks (replicate 1000 CHR ''a'' @ ''bc'') = [replicate 1000 CHR ''a'', ''bc'']
   \<and> (1::nat) < length (chunks (replicate 1000 CHR ''a'' @ ''bc''))
   \<and> chunks (replicate 1000 CHR ''a'' @ ''bc'') ! 1
       = take 1000 (drop (1000 * 1) (replicate 1000 CHR ''a'' @ ''bc''))
   \<and> ''bc'' \<in> set (chunks (replicate 1000 CHR ''a'' @ ''bc''))
   \<and> 0 < length ''bc'' \<and> length ''bc'' \<le> 1000"
proof -
  have c: "chunks (replicate 1000 CHR ''a'' @ ''bc'') = [replicate 1000 CHR ''a'', ''bc'']"
    by (simp add: chunks_append chunks_short)
  have i: "(1::nat) < length (chunks (replicate 1000 CHR ''a'' @ ''bc''))"
    by (simp add: c)
  have m: "''bc'' \<in> set (chunks (replicate 1000 CHR ''a'' @ ''bc''))"
    by (simp add: c)
  from chunks_disjoint_cover [of "replicate 1000 CHR ''a'' @ ''bc''"] i m
  have "chunks (replicate 1000 CHR ''a'' @ ''bc'') ! 1
          = take 1000 (drop (1000 * 1) (replicate 1000 CHR ''a'' @ ''bc''))"
    and "0 < length ''bc'' \<and> length ''bc'' \<le> 1000"
    by blast+
  with c i m show ?thesis by blast
qed

text \<open>
  C6, as the specification states it, fails on a text of two chunks: with chunk
  size 1000 and overlap 200 the last 200 code units of the first chunk would be
  the first 200 of the second, and the two code units across the boundary would
  lie together in one chunk.
\<close>

theorem chunks_overlap_counterexample:
  "chunks (replicate 1000 CHR ''a'' @ replicate 1000 CHR ''b'')
     = [replicate 1000 CHR ''a'', replicate 1000 CHR ''b'']
   \<and> drop (1000 - 200) (replicate 1000 CHR ''a'') \<noteq> take 200 (replicate 1000 CHR ''b'')
   \<and> sublist ''ab'' (replicate 1000 CHR ''a'' @ replicate 1000 CHR ''b'')
   \<and> \<not> sublist ''ab'' (replicate 1000 CHR ''a'')
   \<and> \<not> sublist ''ab'' (replicate 1000 CHR ''b'')"
proof -
  have c: "chunks (replicate 1000 CHR ''a'' @ replicate 1000 CHR ''b'')
             = [replicate 1000 CHR ''a'', replicate 1000 CHR ''b'']"
    by (simp add: chunks_append chunks_short)
  have o: "drop (1000 - 200) (replicate 1000 CHR ''a'') \<noteq> take 200 (replicate 1000 CHR ''b'')"
    by simp
  have s: "sublist ''ab'' (replicate 1000 CHR ''a'' @ replicate 1000 CHR ''b'')"
    using sublist_across_boundary [of 1000 1000 "CHR ''a''" "CHR ''b''"] by simp
  have na: "\<not> sublist ''ab'' (replicate 1000 CHR ''a'')"
    using set_mono_sublist [of "''ab''" "replicate 1000 CHR ''a''"] by auto
  have nb: "\<not> sublist ''ab'' (replicate 1000 CHR ''b'')"
    using set_mono_sublist [of "''ab''" "replicate 1000 CHR ''b''"] by auto
  from c o s na nb show ?thesis by blast
qed

section \<open>Text extraction\<close>

text \<open>
  C7. Extraction dispatches on the declared media type. For \<open>application/pdf\<close>
  the result is the PDF parser's: its text when the buffer parses, its rejection,
  passed on unchanged, when it does not. A type that starts with \<open>text/\<close> gives the
  decoded buffer, always. Every other type throws the error whose message names
  the type, whatever the buffer holds.
\<close>

theorem extractTextFromFile_dispatch:
  "(mimeType = ''application/pdf'' \<longrightarrow>
      extractTextFromFile e fileBuffer mimeType = parse e fileBuffer)
   \<and> (mimeType \<noteq> ''application/pdf'' \<and> prefix ''text/'' mimeType \<longrightarrow>
      extractTextFromFile e fileBuffer mimeType = Inr (toStringUtf8 e fileBuffer))
   \<and> (mimeType \<noteq> ''application/pdf'' \<and> \<not> prefix ''text/'' mimeType \<longrightarrow>
      extractTextFromFile e fileBuffer mimeType
        = Inl (Error (''Unsupported file type for indexing: '' @ mimeType)))"
  by (simp add: extractTextFromFile_def)


theorem extractTextFromFile_dispatch_witness:
  "extractTextFromFile readablePdf [0x25, 0x50, 0x44, 0x46] ''application/pdf''
     = Inr ''Quarterly report''
   \<and> extractTextFromFile storeit [0x25, 0x50, 0x44, 0x46] ''application/pdf''
     = Inl (Rejected ''Invalid PDF structure'')
   \<and> extractTextFromFile storeit [0x61, 0x62] ''text/plain'' = Inr ''ab''
   \<and> extractTextFromFile storeit [0x61, 0x62] ''image/png''
     = Inl (Error ''Unsupported file type for indexing: image/png'')"
proof -
  have "extractTextFromFile readablePdf [0x25, 0x50, 0x44, 0x46] ''application/pdf''
          = Inr ''Quarterly report''"
    using extractTextFromFile_dispatch [of "''application/pdf''" readablePdf "[0x25, 0x50, 0x44, 0x46]"]
    by (simp add: readablePdf_def storeit_def)
  moreover have "extractTextFromFile storeit [0x25, 0x50, 0x44, 0x46] ''application/pdf''
          = Inl (Rejected ''Invalid PDF structure'')"
    using extractTextFromFile_dispatch [of "''application/pdf''" storeit "[0x25, 0x50, 0x44, 0x46]"]
    by (simp add: storeit_def)
  moreover have "extractTextFromFile storeit [0x61, 0x62] ''text/plain'' = Inr ''ab''"
    using extractTextFromFile_dispatch [of "''text/plain''" storeit "[0x61, 0x62]"]
    by (simp add: storeit_def asciiText_def char_of_a char_of_b)
  moreover have "extractTextFromFile storeit [0x61, 0x62] ''image/png''
          = Inl (Error ''Unsupported file type for indexing: image/png'')"
    using extractTextFromFile_dispatch [of "''image/png''" storeit "[0x61, 0x62]"]
    by simp
  ultimately show ?thesis by blast
qed

text \<open>
  C7, as the specification states it, fails on a buffer that is declared
  \<open>application/pdf\<close> and does not parse: extraction does not succeed, and the error
  is the parser's, not the "unsupported" one.
\<close>

theorem extractTextFromFile_pdf_counterexample:
  "extractTextFromFile storeit [0x25, 0x50, 0x44, 0x46] ''application/pdf''
     = Inl (Rejected ''Invalid PDF structure'')
   \<and> Rejected ''Invalid PDF structure''
       \<noteq> Error (''Unsupported file type for indexing: '' @ ''application/pdf'')"
  by (simp add: extractTextFromFile_def storeit_def)

section \<open>Indexing\<close>

lemma embedded_append: "embedded (xs @ ys) = embedded xs @ embedded ys"
  by (induction xs rule: embedded.induct) simp_all

lemma attempted_append: "attempted (xs @ ys) = attempted xs @ attempted ys"
  by (induction xs rule: attempted.induct) simp_all

text \<open>One turn of the loop in which the embedding and the write both succeed.\<close>

lemma indexChunks_step_ok:
  assumes "configured e"
    and "embedQuery e (tick w) c = Inr v"
    and "createDocumentFault e (Suc (tick w))
           \<lparr>docId = uniqueId e (Suc (tick w)), fileId = fid, content = c, vector = v\<rparr> = None"
  shows "\<exists>w'. indexChunks e fid (c # rest) w = indexChunks e fid rest w'
           \<and> tick w' = tick w + 2
           \<and> map content (documents w') = map content (documents w) @ [c]
           \<and> map fileId (documents w') = map fileId (documents w) @ [fid]
           \<and> embedded (calls w') = embedded (calls w) @ [c]
           \<and> map content (attempted (calls w')) = map content (attempted (calls w)) @ [c]"
proof -
  let ?d = "\<lparr>docId = uniqueId e (Suc (tick w)), fileId = fid, content = c, vector = v\<rparr>"
  let ?w' = "w\<lparr>calls := calls w @ [EmbedQuery c, CreateDocument (databaseId e) (collectionId e) ?d],
               documents := documents w @ [?d]\<rparr>"
  have "indexChunks e fid (c # rest) w = indexChunks e fid rest ?w'"
    using assms
    by (simp add: createDocument_def record_call_def tick_def Let_def)
  moreover have "tick ?w' = tick w + 2"
    by (simp add: tick_def)
  moreover have "map content (documents ?w') = map content (documents w) @ [c]"
    and "map fileId (documents ?w') = map fileId (documents w) @ [fid]"
    and "embedded (calls ?w') = embedded (calls w) @ [c]"
    and "map content (attempted (calls ?w')) = map content (attempted (calls w)) @ [c]"
    by (simp_all add: embedded_append attempted_append)
  ultimately show ?thesis by blast
qed

text \<open>One turn of the loop in which the embedding or the write is rejected.\<close>

lemma indexChunks_step_fails:
  assumes "configured e"
    and "(\<exists>err. embedQuery e (tick w) c = Inl err)
         \<or> (\<exists>v err. embedQuery e (tick w) c = Inr v
              \<and> createDocumentFault e (Suc (tick w))
                   \<lparr>docId = uniqueId e (Suc (tick w)), fileId = fid, content = c, vector = v\<rparr>
                 = Some err)"
  shows "\<exists>err w'. indexChunks e fid (c # post) w = (Inl err, w')
           \<and> documents w' = documents w
           \<and> embedded (calls w') = embedded (calls w) @ [c]"
proof (cases "embedQuery e (tick w) c")
  case (Inl err)
  then show ?thesis
    by (simp add: record_call_def embedded_append)
next
  case (Inr v)
  with assms(2) obtain err where
    "createDocumentFault e (Suc (tick w))
       \<lparr>docId = uniqueId e (Suc (tick w)), fileId = fid, content = c, vector = v\<rparr> = Some err"
    by auto
  with Inr assms(1) show ?thesis
    by (simp add: createDocument_def record_call_def tick_def Let_def embedded_append)
qed

text \<open>
  A run of turns that all succeed. Turn \<open>i\<close> of a loop entered at tick \<open>t\<close> embeds at
  tick \<open>t + 2 * i\<close> and writes at the tick after it.
\<close>

lemma indexChunks_prefix_ok:
  assumes "configured e"
    and "\<forall>i < length cs. \<exists>v. embedQuery e (tick w + 2 * i) (cs ! i) = Inr v
           \<and> createDocumentFault e (Suc (tick w + 2 * i))
                \<lparr>docId = uniqueId e (Suc (tick w + 2 * i)), fileId = fid,
                 content = cs ! i, vector = v\<rparr> = None"
  shows "\<exists>w'. indexChunks e fid (cs @ rest) w = indexChunks e fid rest w'
           \<and> tick w' = tick w + 2 * length cs
           \<and> map content (documents w') = map content (documents w) @ cs
           \<and> map fileId (documents w') = map fileId (documents w) @ replicate (length cs) fid
           \<and> embedded (calls w') = embedded (calls w) @ cs
           \<and> map content (attempted (calls w')) = map content (attempted (calls w)) @ cs"
  using assms
proof (induction cs arbitrary: w)
  case Nil
  show ?case by (intro exI [of _ w]) simp
next
  case (Cons c cs)
  have "0 < length (c # cs)" by simp
  with Cons.prems(2) obtain v where v: "embedQuery e (tick w) c = Inr v"
    and f: "createDocumentFault e (Suc (tick w))
              \<lparr>docId = uniqueId e (Suc (tick w)), fileId = fid, content = c, vector = v\<rparr> = None"
    by fastforce
  from indexChunks_step_ok [OF Cons.prems(1) v f, of "cs @ rest"]
  obtain w1 where w1: "indexChunks e fid (c # cs @ rest) w = indexChunks e fid (cs @ rest) w1"
      "tick w1 = tick w + 2"
      "map content (documents w1) = map content (documents w) @ [c]"
      "map fileId (documents w1) = map fileId (documents w) @ [fid]"
      "embedded (calls w1) = embedded (calls w) @ [c]"
      "map content (attempted (calls w1)) = map content (attempted (calls w)) @ [c]"
    by blast
  have later: "\<forall>i < length cs. \<exists>v. embedQuery e (tick w1 + 2 * i) (cs ! i) = Inr v
           \<and> createDocumentFault e (Suc (tick w1 + 2 * i))
                \<lparr>docId = uniqueId e (Suc (tick w1 + 2 * i)), fileId = fid,
                 content = cs ! i, vector = v\<rparr> = None"
  proof (intro allI impI)
    fix i
    assume "i < length cs"
    then have "Suc i < length (c # cs)" by simp
    with Cons.prems(2)
    have "\<exists>v. embedQuery e (tick w + 2 * Suc i) ((c # cs) ! Suc i) = Inr v
           \<and> createDocumentFault e (Suc (tick w + 2 * Suc i))
                \<lparr>docId = uniqueId e (Suc (tick w + 2 * Suc i)), fileId = fid,
                 content = (c # cs) ! Suc i, vector = v\<rparr> = None"
      by blast
    moreover have "tick w + 2 * Suc i = tick w1 + 2 * i"
      using w1(2) by simp
    ultimately have "\<exists>v. embedQuery e (tick w1 + 2 * i) ((c # cs) ! Suc i) = Inr v
           \<and> createDocumentFault e (Suc (tick w1 + 2 * i))
                \<lparr>docId = uniqueId e (Suc (tick w1 + 2 * i)), fileId = fid,
                 content = (c # cs) ! Suc i, vector = v\<rparr> = None"
      by (simp only:)
    then show "\<exists>v. embedQuery e (tick w1 + 2 * i) (cs ! i) = Inr v
           \<and> createDocumentFault e (Suc (tick w1 + 2 * i))
                \<lparr>docId = uniqueId e (Suc (tick w1 + 2 * i)), fileId = fid,
                 content = cs ! i, vector = v\<rparr> = None"
      by (simp only: nth_Cons_Suc)
  qed
  from Cons.IH [OF Cons.prems(1) later]
  obtain w' where w': "indexChunks e fid (cs @ rest) w1 = indexChunks e fid rest w'"
      "tick w' = tick w1 + 2 * length cs"
      "map content (documents w') = map content (documents w1) @ cs"
      "map fileId (documents w') = map fileId (documents w1) @ replicate (length cs) fid"
      "embedded (calls w') = embedded (calls w1) @ cs"
      "map content (attempted (calls w')) = map content (attempted (calls w1)) @ cs"
    by blast
  have "indexChunks e fid ((c # cs) @ rest) w = indexChunks e fid rest w'"
    using w1(1) w'(1) by simp
  moreover have "tick w' = tick w + 2 * length (c # cs)"
    using w1(2) w'(2) by simp
  moreover have "map content (documents w') = map content (documents w) @ c # cs"
    using w1(3) w'(3) by simp
  moreover have "map fileId (documents w') = map fileId (documents w) @ replicate (length (c # cs)) fid"
    using w1(4) w'(4) by simp
  moreover have "embedded (calls w') = embedded (calls w) @ c # cs"
    using w1(5) w'(5) by simp
  moreover have "map content (attempted (calls w')) = map content (attempted (calls w)) @ c # cs"
    using w1(6) w'(6) by simp
  ultimately show ?case by blast
qed

text \<open>The \<open>try\<close> block once the file is downloaded and its text extracted.\<close>

lemma indexBody_extracted:
  assumes "getFileDownload e (tick w) (bucketId e) bucketFileId = Inr fileBuffer"
    and "extractTextFromFile e fileBuffer mimeType = Inr s"
  shows "indexBody e fid bucketFileId mimeType w
           = indexChunks e fid (chunks s) (record_call (GetFileDownload (bucketId e) bucketFileId) w)"
  using assms by (simp add: indexBody_def)

text \<open>
  Once the admin client is there, the \<open>catch\<close> clause turns every end of the body
  into a normal return.
\<close>

lemma indexDocument_catch:
  assumes "createAdminClient e (tick w) = None"
  shows "indexDocument e fid bucketFileId mimeType w
           = (Inr (), snd (indexBody e fid bucketFileId mimeType w))"
  using assms
  by (cases "indexBody e fid bucketFileId mimeType w")
     (simp add: indexDocument_def split: sum.splits)

lemma record_call_frame:
  "documents (record_call c w) = documents w"
  "calls (record_call c w) = calls w @ [c]"
  "tick (record_call c w) = Suc (tick w)"
  by (simp_all add: record_call_def tick_def)

text \<open>
  A run in which no call is rejected writes the chunks, all of them, in order.
  The download is the call at tick \<open>tick w\<close>, turn \<open>i\<close> of the loop embeds at tick
  \<open>tick w + 1 + 2 * i\<close> and writes at the tick after it.
\<close>

lemma index_run_complete:
  assumes "createAdminClient e (tick w) = None"
    and "configured e"
    and "getFileDownload e (tick w) (bucketId e) bucketFileId = Inr fileBuffer"
    and "extractTextFromFile e fileBuffer mimeType = Inr s"
    and "\<forall>i < length (chunks s). \<exists>v.
           embedQuery e (tick w + 1 + 2 * i) (chunks s ! i) = Inr v
           \<and> createDocumentFault e (tick w + 2 + 2 * i)
                \<lparr>docId = uniqueId e (tick w + 2 + 2 * i), fileId = fid,
                 content = chunks s ! i, vector = v\<rparr> = None"
  shows "\<exists>w'. indexDocument e fid bucketFileId mimeType w = (Inr (), w')
           \<and> map content (documents w') = map content (documents w) @ chunks s
           \<and> map fileId (documents w') = map fileId (documents w) @ replicate (length (chunks s)) fid
           \<and> embedded (calls w') = embedded (calls w) @ chunks s"
proof -
  let ?w1 = "record_call (GetFileDownload (bucketId e) bucketFileId) w"
  have turns: "\<forall>i < length (chunks s). \<exists>v.
           embedQuery e (tick ?w1 + 2 * i) (chunks s ! i) = Inr v
           \<and> createDocumentFault e (Suc (tick ?w1 + 2 * i))
                \<lparr>docId = uniqueId e (Suc (tick ?w1 + 2 * i)), fileId = fid,
                 content = chunks s ! i, vector = v\<rparr> = None"
    using assms(5) by (simp add: record_call_frame)
  from indexChunks_prefix_ok [OF assms(2) turns, of "[]"]
  obtain w' where w': "indexChunks e fid (chunks s) ?w1 = (Inr Completed, w')"
      "map content (documents w') = map content (documents ?w1) @ chunks s"
      "map fileId (documents w') = map fileId (documents ?w1) @ replicate (length (chunks s)) fid"
      "embedded (calls w') = embedded (calls ?w1) @ chunks s"
    by auto
  have "indexDocument e fid bucketFileId mimeType w = (Inr (), w')"
    using indexDocument_catch [OF assms(1)] indexBody_extracted [OF assms(3) assms(4)] w'(1)
    by simp
  with w'(2,3,4) show ?thesis
    by (simp add: record_call_frame embedded_append)
qed

text \<open>A run whose first rejected turn is turn \<open>k\<close>.\<close>

lemma index_run_stops:
  assumes "createAdminClient e (tick w) = None"
    and "configured e"
    and "getFileDownload e (tick w) (bucketId e) bucketFileId = Inr fileBuffer"
    and "extractTextFromFile e fileBuffer mimeType = Inr s"
    and "k < length (chunks s)"
    and "\<forall>i < k. \<exists>v.
           embedQuery e (tick w + 1 + 2 * i) (chunks s ! i) = Inr v
           \<and> createDocumentFault e (tick w + 2 + 2 * i)
                \<lparr>docId = uniqueId e (tick w + 2 + 2 * i), fileId = fid,
                 content = chunks s ! i, vector = v\<rparr> = None"
    and "(\<exists>err. embedQuery e (tick w + 1 + 2 * k) (chunks s ! k) = Inl err)
         \<or> (\<exists>v err. embedQuery e (tick w + 1 + 2 * k) (chunks s ! k) = Inr v
              \<and> createDocumentFault e (tick w + 2 + 2 * k)
                   \<lparr>docId = uniqueId e (tick w + 2 + 2 * k), fileId = fid,
                    content = chunks s ! k, vector = v\<rparr> = Some err)"
  shows "\<exists>w'. indexDocument e fid bucketFileId mimeType w = (Inr (), w')
           \<and> map content (documents w') = map content (documents w) @ take k (chunks s)
           \<and> embedded (calls w') = embedded (calls w) @ take (Suc k) (chunks s)"
proof -
  let ?w1 = "record_call (GetFileDownload (bucketId e) bucketFileId) w"
  let ?pre = "take k (chunks s)"
  let ?c = "chunks s ! k"
  let ?post = "drop (Suc k) (chunks s)"
  have split: "chunks s = ?pre @ ?c # ?post"
    using assms(5) by (simp add: id_take_nth_drop [symmetric])
  have len: "length ?pre = k"
    using assms(5) by simp
  have turns: "\<forall>i < length ?pre. \<exists>v.
           embedQuery e (tick ?w1 + 2 * i) (?pre ! i) = Inr v
           \<and> createDocumentFault e (Suc (tick ?w1 + 2 * i))
                \<lparr>docId = uniqueId e (Suc (tick ?w1 + 2 * i)), fileId = fid,
                 content = ?pre ! i, vector = v\<rparr> = None"
    using assms(6) len by (simp add: record_call_frame)
  from indexChunks_prefix_ok [OF assms(2) turns, of "?c # ?post"]
  obtain w2 where w2: "indexChunks e fid (?pre @ ?c # ?post) ?w1 = indexChunks e fid (?c # ?post) w2"
      "tick w2 = tick ?w1 + 2 * length ?pre"
      "map content (documents w2) = map content (documents ?w1) @ ?pre"
      "embedded (calls w2) = embedded (calls ?w1) @ ?pre"
    by blast
  have t2: "tick w2 = tick w + 1 + 2 * k"
    using w2(2) len by (simp add: record_call_frame)
  have "(\<exists>err. embedQuery e (tick w2) ?c = Inl err)
        \<or> (\<exists>v err. embedQuery e (tick w2) ?c = Inr v
             \<and> createDocumentFault e (Suc (tick w2))
                  \<lparr>docId = uniqueId e (Suc (tick w2)), fileId = fid, content = ?c, vector = v\<rparr>
                = Some err)"
    using assms(7) by (simp add: t2)
  from indexChunks_step_fails [OF assms(2) this, of ?post]
  obtain err w' where w': "indexChunks e fid (?c # ?post) w2 = (Inl err, w')"
      "documents w' = documents w2" "embedded (calls w') = embedded (calls w2) @ [?c]"
    by blast
  have "indexChunks e fid (chunks s) ?w1 = (Inl err, w')"
    using split w2(1) w'(1) by simp
  then have "indexDocument e fid bucketFileId mimeType w = (Inr (), w')"
    using indexDocument_catch [OF assms(1)] indexBody_extracted [OF assms(3) assms(4)]
    by simp
  moreover have "take (Suc k) (chunks s) = ?pre @ [?c]"
    using assms(5) by (simp add: take_Suc_conv_app_nth)
  ultimately show ?thesis
    using w2(3,4) w'(2,3)
    by (simp add: record_call_frame embedded_append)
qed


lemma storeit_fields:
  "createAdminClient storeit t = None"
  "configured storeit"
  "bucketId storeit = ''uploads''"
  "getFileDownload storeit t b ''notes.txt'' = Inr threeChunkFile"
  "getFileDownload storeit t b ''long.txt'' = Inr eightyChunkFile"
  "getFileDownload storeit t b ''missing.bin'' = Inl (Rejected ''File not found'')"
  "toStringUtf8 storeit = asciiText"
  "embedQuery storeit t x = Inr [real (length x)]"
  "createDocumentFault storeit t d = None"
  by (simp_all add: storeit_def configured_def collectionId_def)

lemma extract_plain_text:
  "toStringUtf8 e = asciiText \<Longrightarrow> extractTextFromFile e buf ''text/plain'' = Inr (asciiText buf)"
  by (simp add: extractTextFromFile_def)

lemma tick_emptyStore: "tick emptyStore = 0"
  by (simp add: tick_def emptyStore_def)

lemma emptyStore_fields: "documents emptyStore = []" "calls emptyStore = []"
  by (simp_all add: emptyStore_def)

text \<open>
  C3. \<open>indexDocument\<close> has no chunk cap and no result value: when the collection is
  configured and no call of the run is rejected (the download, then for each chunk
  in turn its embedding and its write), every chunk of the extracted text is
  written, in order, \<open>\<lceil>length / 1000\<rceil>\<close> documents in all, and the promise resolves
  to \<open>undefined\<close>.
\<close>

theorem indexDocument_writes_every_chunk:
  assumes "createAdminClient e (tick w) = None"
    and "configured e"
    and "getFileDownload e (tick w) (bucketId e) bucketFileId = Inr fileBuffer"
    and "extractTextFromFile e fileBuffer mimeType = Inr s"
    and "\<forall>i < length (chunks s). \<exists>v.
           embedQuery e (tick w + 1 + 2 * i) (chunks s ! i) = Inr v
           \<and> createDocumentFault e (tick w + 2 + 2 * i)
                \<lparr>docId = uniqueId e (tick w + 2 + 2 * i), fileId = fid,
                 content = chunks s ! i, vector = v\<rparr> = None"
  shows "fst (indexDocument e fid bucketFileId mimeType w) = Inr ()
         \<and> map content (documents (snd (indexDocument e fid bucketFileId mimeType w)))
             = map content (documents w) @ chunks s
         \<and> length (documents (snd (indexDocument e fid bucketFileId mimeType w)))
             = length (documents w) + (length s + 999) div 1000"
proof -
  from index_run_complete [OF assms]
  obtain w' where w': "indexDocument e fid bucketFileId mimeType w = (Inr (), w')"
      "map content (documents w') = map content (documents w) @ chunks s"
    by blast
  from w'(2) have "length (map content (documents w')) = length (map content (documents w) @ chunks s)"
    by simp
  then have "length (documents w') = length (documents w) + (length s + 999) div 1000"
    by (simp add: length_chunks)
  with w' show ?thesis by simp
qed

theorem indexDocument_writes_every_chunk_witness:
  "fst (indexDocument storeit ''fileA'' ''notes.txt'' ''text/plain'' emptyStore) = Inr ()
   \<and> map content (documents (snd (indexDocument storeit ''fileA'' ''notes.txt'' ''text/plain'' emptyStore)))
       = [replicate 1000 CHR ''a'', replicate 1000 CHR ''b'', replicate 1000 CHR ''c'']
   \<and> length (documents (snd (indexDocument storeit ''fileA'' ''notes.txt'' ''text/plain'' emptyStore))) = 3"
proof -
  have "createAdminClient storeit (tick emptyStore) = None"
    and "configured storeit"
    and "getFileDownload storeit (tick emptyStore) (bucketId storeit) ''notes.txt'' = Inr threeChunkFile"
    and "extractTextFromFile storeit threeChunkFile ''text/plain'' = Inr (asciiText threeChunkFile)"
    and "\<forall>i < length (chunks (asciiText threeChunkFile)). \<exists>v.
           embedQuery storeit (tick emptyStore + 1 + 2 * i) (chunks (asciiText threeChunkFile) ! i) = Inr v
           \<and> createDocumentFault storeit (tick emptyStore + 2 + 2 * i)
                \<lparr>docId = uniqueId storeit (tick emptyStore + 2 + 2 * i), fileId = ''fileA'',
                 content = chunks (asciiText threeChunkFile) ! i, vector = v\<rparr> = None"
    by (simp_all add: storeit_fields extract_plain_text)
  from indexDocument_writes_every_chunk [OF this]
  show ?thesis
    by (simp add: threeChunkFile_chunks threeChunkFile_length emptyStore_fields)
qed

text \<open>
  C3, as the specification states it, fails on the file of eighty chunks: with the
  maximum of 50 the specification takes as its example, 80 documents are written,
  and the result is \<open>undefined\<close>, with no chunk count and no truncation flag in it.
\<close>

theorem indexDocument_cap_counterexample:
  "fst (indexDocument storeit ''fileA'' ''long.txt'' ''text/plain'' emptyStore) = Inr ()
   \<and> length (documents (snd (indexDocument storeit ''fileA'' ''long.txt'' ''text/plain'' emptyStore))) = 80
   \<and> \<not> length (documents (snd (indexDocument storeit ''fileA'' ''long.txt'' ''text/plain'' emptyStore))) \<le> 50"
proof -
  have "createAdminClient storeit (tick emptyStore) = None"
    and "configured storeit"
    and "getFileDownload storeit (tick emptyStore) (bucketId storeit) ''long.txt'' = Inr eightyChunkFile"
    and "extractTextFromFile storeit eightyChunkFile ''text/plain'' = Inr (asciiText eightyChunkFile)"
    and "\<forall>i < length (chunks (asciiText eightyChunkFile)). \<exists>v.
           embedQuery storeit (tick emptyStore + 1 + 2 * i) (chunks (asciiText eightyChunkFile) ! i) = Inr v
           \<and> createDocumentFault storeit (tick emptyStore + 2 + 2 * i)
                \<lparr>docId = uniqueId storeit (tick emptyStore + 2 + 2 * i), fileId = ''fileA'',
                 content = chunks (asciiText eightyChunkFile) ! i, vector = v\<rparr> = None"
    by (simp_all add: storeit_fields extract_plain_text)
  from index_run_complete [OF this]
  obtain w' where w': "indexDocument storeit ''fileA'' ''long.txt'' ''text/plain'' emptyStore = (Inr (), w')"
      "map content (documents w') = map content (documents emptyStore) @ chunks (asciiText eightyChunkFile)"
    by blast
  from w'(2) have "length (map content (documents w')) = length (chunks (asciiText eightyChunkFile))"
    by (simp add: emptyStore_fields)
  then have "length (documents w') = 80"
    by (simp add: length_chunks eightyChunkFile_length)
  with w'(1) show ?thesis by simp
qed

lemma rateLimited_fields:
  "createAdminClient rateLimited t = None"
  "configured rateLimited"
  "bucketId rateLimited = ''uploads''"
  "getFileDownload rateLimited t b ''notes.txt'' = Inr threeChunkFile"
  "toStringUtf8 rateLimited = asciiText"
  "embedQuery rateLimited t x =
     (if CHR ''b'' \<in> set x then Inl (Rejected ''429 Too Many Requests'') else Inr [real (length x)])"
  "createDocumentFault rateLimited t d = None"
  by (simp_all add: rateLimited_def storeit_def configured_def collectionId_def)

lemma flaky_fields:
  "createAdminClient flaky t = None"
  "configured flaky"
  "bucketId flaky = ''uploads''"
  "getFileDownload flaky t b ''notes.txt'' = Inr threeChunkFile"
  "toStringUtf8 flaky = asciiText"
  "embedQuery flaky t x =
     (if t = 3 then Inl (Rejected ''429 Too Many Requests'') else Inr [real (length x)])"
  "createDocumentFault flaky t d = None"
  by (simp_all add: flaky_def storeit_def configured_def collectionId_def)

lemma writesRejected_fields:
  "createAdminClient writesRejected t = None"
  "configured writesRejected"
  "bucketId writesRejected = ''uploads''"
  "getFileDownload writesRejected t b ''notes.txt'' = Inr threeChunkFile"
  "toStringUtf8 writesRejected = asciiText"
  "embedQuery writesRejected t x = Inr [real (length x)]"
  "createDocumentFault writesRejected t d = Some (Rejected ''401 Unauthorized'')"
  by (simp_all add: writesRejected_def storeit_def configured_def collectionId_def)

text \<open>
  C4. The loop has one \<open>try\<close> around it, not one per chunk: at the first chunk whose
  embedding or write is rejected \<open>indexDocument\<close> stops. If chunk \<open>k\<close> is the first
  one rejected, the \<open>k\<close> chunks before it stay written, chunk \<open>k\<close> and all chunks
  after it are not written, and no chunk after it is handed to the embedding
  model; the rejection is caught and the promise resolves to \<open>undefined\<close>, which
  counts nothing.
\<close>

theorem indexDocument_stops_at_first_failure:
  assumes "createAdminClient e (tick w) = None"
    and "configured e"
    and "getFileDownload e (tick w) (bucketId e) bucketFileId = Inr fileBuffer"
    and "extractTextFromFile e fileBuffer mimeType = Inr s"
    and "k < length (chunks s)"
    and "\<forall>i < k. \<exists>v.
           embedQuery e (tick w + 1 + 2 * i) (chunks s ! i) = Inr v
           \<and> createDocumentFault e (tick w + 2 + 2 * i)
                \<lparr>docId = uniqueId e (tick w + 2 + 2 * i), fileId = fid,
                 content = chunks s ! i, vector = v\<rparr> = None"
    and "(\<exists>err. embedQuery e (tick w + 1 + 2 * k) (chunks s ! k) = Inl err)
         \<or> (\<exists>v err. embedQuery e (tick w + 1 + 2 * k) (chunks s ! k) = Inr v
              \<and> createDocumentFault e (tick w + 2 + 2 * k)
                   \<lparr>docId = uniqueId e (tick w + 2 + 2 * k), fileId = fid,
                    content = chunks s ! k, vector = v\<rparr> = Some err)"
  shows "fst (indexDocument e fid bucketFileId mimeType w) = Inr ()
         \<and> map content (documents (snd (indexDocument e fid bucketFileId mimeType w)))
             = map content (documents w) @ take k (chunks s)
         \<and> embedded (calls (snd (indexDocument e fid bucketFileId mimeType w)))
             = embedded (calls w) @ take (Suc k) (chunks s)"
proof -
  from index_run_stops [OF assms]
  obtain w' where "indexDocument e fid bucketFileId mimeType w = (Inr (), w')"
      "map content (documents w') = map content (documents w) @ take k (chunks s)"
      "embedded (calls w') = embedded (calls w) @ take (Suc k) (chunks s)"
    by blast
  then show ?thesis by simp
qed

theorem indexDocument_stops_at_first_failure_witness:
  "fst (indexDocument flaky ''fileA'' ''notes.txt'' ''text/plain'' emptyStore) = Inr ()
   \<and> map content (documents (snd (indexDocument flaky ''fileA'' ''notes.txt'' ''text/plain'' emptyStore)))
       = [replicate 1000 CHR ''a'']
   \<and> embedded (calls (snd (indexDocument flaky ''fileA'' ''notes.txt'' ''text/plain'' emptyStore)))
       = [replicate 1000 CHR ''a'', replicate 1000 CHR ''b'']
   \<and> fst (indexDocument writesRejected ''fileA'' ''notes.txt'' ''text/plain'' emptyStore) = Inr ()
   \<and> map content (documents (snd (indexDocument writesRejected ''fileA'' ''notes.txt'' ''text/plain'' emptyStore)))
       = []
   \<and> embedded (calls (snd (indexDocument writesRejected ''fileA'' ''notes.txt'' ''text/plain'' emptyStore)))
       = [replicate 1000 CHR ''a'']"
proof -
  have "createAdminClient flaky (tick emptyStore) = None"
    and "configured flaky"
    and "getFileDownload flaky (tick emptyStore) (bucketId flaky) ''notes.txt'' = Inr threeChunkFile"
    and "extractTextFromFile flaky threeChunkFile ''text/plain'' = Inr (asciiText threeChunkFile)"
    and "1 < length (chunks (asciiText threeChunkFile))"
    and "\<forall>i < 1. \<exists>v.
           embedQuery flaky (tick emptyStore + 1 + 2 * i) (chunks (asciiText threeChunkFile) ! i) = Inr v
           \<and> createDocumentFault flaky (tick emptyStore + 2 + 2 * i)
                \<lparr>docId = uniqueId flaky (tick emptyStore + 2 + 2 * i), fileId = ''fileA'',
                 content = chunks (asciiText threeChunkFile) ! i, vector = v\<rparr> = None"
    and "(\<exists>err. embedQuery flaky (tick emptyStore + 1 + 2 * 1) (chunks (asciiText threeChunkFile) ! 1)
                  = Inl err)
         \<or> (\<exists>v err. embedQuery flaky (tick emptyStore + 1 + 2 * 1) (chunks (asciiText threeChunkFile) ! 1)
                  = Inr v
              \<and> createDocumentFault flaky (tick emptyStore + 2 + 2 * 1)
                   \<lparr>docId = uniqueId flaky (tick emptyStore + 2 + 2 * 1), fileId = ''fileA'',
                    content = chunks (asciiText threeChunkFile) ! 1, vector = v\<rparr> = Some err)"
    by (simp_all add: flaky_fields extract_plain_text threeChunkFile_chunks tick_emptyStore)
  from indexDocument_stops_at_first_failure [OF this]
  have r: "fst (indexDocument flaky ''fileA'' ''notes.txt'' ''text/plain'' emptyStore) = Inr ()
     \<and> map content (documents (snd (indexDocument flaky ''fileA'' ''notes.txt'' ''text/plain'' emptyStore)))
         = [replicate 1000 CHR ''a'']
     \<and> embedded (calls (snd (indexDocument flaky ''fileA'' ''notes.txt'' ''text/plain'' emptyStore)))
         = [replicate 1000 CHR ''a'', replicate 1000 CHR ''b'']"
    by (simp add: emptyStore_fields threeChunkFile_chunks)
  have "createAdminClient writesRejected (tick emptyStore) = None"
    and "configured writesRejected"
    and "getFileDownload writesRejected (tick emptyStore) (bucketId writesRejected) ''notes.txt''
           = Inr threeChunkFile"
    and "extractTextFromFile writesRejected threeChunkFile ''text/plain'' = Inr (asciiText threeChunkFile)"
    and "0 < length (chunks (asciiText threeChunkFile))"
    and "\<forall>i < 0. \<exists>v.
           embedQuery writesRejected (tick emptyStore + 1 + 2 * i) (chunks (asciiText threeChunkFile) ! i)
             = Inr v
           \<and> createDocumentFault writesRejected (tick emptyStore + 2 + 2 * i)
                \<lparr>docId = uniqueId writesRejected (tick emptyStore + 2 + 2 * i), fileId = ''fileA'',
                 content = chunks (asciiText threeChunkFile) ! i, vector = v\<rparr> = None"
    and "(\<exists>err. embedQuery writesRejected (tick emptyStore + 1 + 2 * 0)
                  (chunks (asciiText threeChunkFile) ! 0) = Inl err)
         \<or> (\<exists>v err. embedQuery writesRejected (tick emptyStore + 1 + 2 * 0)
                  (chunks (asciiText threeChunkFile) ! 0) = Inr v
              \<and> createDocumentFault writesRejected (tick emptyStore + 2 + 2 * 0)
                   \<lparr>docId = uniqueId writesRejected (tick emptyStore + 2 + 2 * 0), fileId = ''fileA'',
                    content = chunks (asciiText threeChunkFile) ! 0, vector = v\<rparr> = Some err)"
    by (simp_all add: writesRejected_fields extract_plain_text threeChunkFile_chunks tick_emptyStore)
  from indexDocument_stops_at_first_failure [OF this]
  have "fst (indexDocument writesRejected ''fileA'' ''notes.txt'' ''text/plain'' emptyStore) = Inr ()
     \<and> map content (documents (snd (indexDocument writesRejected ''fileA'' ''notes.txt'' ''text/plain'' emptyStore)))
         = []
     \<and> embedded (calls (snd (indexDocument writesRejected ''fileA'' ''notes.txt'' ''text/plain'' emptyStore)))
         = [replicate 1000 CHR ''a'']"
    by (simp add: emptyStore_fields threeChunkFile_chunks)
  with r show ?thesis by blast
qed

text \<open>
  C4, as the specification states it, fails on the file of three chunks when the
  embedding of the second chunk is rejected: the third chunk, whose embedding and
  write would both succeed, is never handed to the embedding model and never
  written, and the result carries no count.
\<close>

theorem indexDocument_skip_counterexample:
  "chunks (asciiText threeChunkFile)
     = [replicate 1000 CHR ''a'', replicate 1000 CHR ''b'', replicate 1000 CHR ''c'']
   \<and> embedQuery rateLimited 3 (replicate 1000 CHR ''b'') = Inl (Rejected ''429 Too Many Requests'')
   \<and> embedQuery rateLimited 4 (replicate 1000 CHR ''c'') = Inr [1000]
   \<and> createDocumentFault rateLimited 5
        \<lparr>docId = uniqueId rateLimited 5, fileId = ''fileA'',
         content = replicate 1000 CHR ''c'', vector = [1000]\<rparr> = None
   \<and> map content (documents (snd (indexDocument rateLimited ''fileA'' ''notes.txt'' ''text/plain'' emptyStore)))
       = [replicate 1000 CHR ''a'']
   \<and> embedded (calls (snd (indexDocument rateLimited ''fileA'' ''notes.txt'' ''text/plain'' emptyStore)))
       = [replicate 1000 CHR ''a'', replicate 1000 CHR ''b'']
   \<and> fst (indexDocument rateLimited ''fileA'' ''notes.txt'' ''text/plain'' emptyStore) = Inr ()"
proof -
  have "createAdminClient rateLimited (tick emptyStore) = None"
    and "configured rateLimited"
    and "getFileDownload rateLimited (tick emptyStore) (bucketId rateLimited) ''notes.txt''
           = Inr threeChunkFile"
    and "extractTextFromFile rateLimited threeChunkFile ''text/plain'' = Inr (asciiText threeChunkFile)"
    and "1 < length (chunks (asciiText threeChunkFile))"
    and "\<forall>i < 1. \<exists>v.
           embedQuery rateLimited (tick emptyStore + 1 + 2 * i) (chunks (asciiText threeChunkFile) ! i)
             = Inr v
           \<and> createDocumentFault rateLimited (tick emptyStore + 2 + 2 * i)
                \<lparr>docId = uniqueId rateLimited (tick emptyStore + 2 + 2 * i), fileId = ''fileA'',
                 content = chunks (asciiText threeChunkFile) ! i, vector = v\<rparr> = None"
    and "(\<exists>err. embedQuery rateLimited (tick emptyStore + 1 + 2 * 1)
                  (chunks (asciiText threeChunkFile) ! 1) = Inl err)
         \<or> (\<exists>v err. embedQuery rateLimited (tick emptyStore + 1 + 2 * 1)
                  (chunks (asciiText threeChunkFile) ! 1) = Inr v
              \<and> createDocumentFault rateLimited (tick emptyStore + 2 + 2 * 1)
                   \<lparr>docId = uniqueId rateLimited (tick emptyStore + 2 + 2 * 1), fileId = ''fileA'',
                    content = chunks (asciiText threeChunkFile) ! 1, vector = v\<rparr> = Some err)"
    by (simp_all add: rateLimited_fields extract_plain_text threeChunkFile_chunks tick_emptyStore)
  from index_run_stops [OF this]
  obtain w' where "indexDocument rateLimited ''fileA'' ''notes.txt'' ''text/plain'' emptyStore = (Inr (), w')"
      "map content (documents w') = [replicate 1000 CHR ''a'']"
      "embedded (calls w') = [replicate 1000 CHR ''a'', replicate 1000 CHR ''b'']"
    by (auto simp: emptyStore_fields threeChunkFile_chunks)
  then show ?thesis
    by (simp add: threeChunkFile_chunks rateLimited_fields)
qed

text \<open>
  What the \<open>catch\<close> clause does achieve: once the admin client is there,
  \<open>indexDocument\<close> returns normally whatever the download, the extraction, the
  embedding model and the store do.
\<close>

lemma indexDocument_returns_after_client:
  "createAdminClient e (tick w) = None \<Longrightarrow>
     fst (indexDocument e fid bucketFileId mimeType w) = Inr ()"
  by (simp add: indexDocument_catch)

text \<open>
  C5. \<open>indexDocument\<close> is meant never to throw (the comment in its \<open>catch\<close> clause:
  "Don't throw, just log. We don't want to break the main upload flow if RAG
  fails."), but \<open>createAdminClient()\<close> is awaited on the line before the \<open>try\<close>: when
  that call rejects, \<open>indexDocument\<close> rejects to its caller, before anything is
  downloaded.
\<close>

theorem indexDocument_client_rejection:
  "indexDocument clientDown ''fileA'' ''notes.txt'' ''text/plain'' emptyStore
     = (Inl (Rejected ''Invalid endpoint URL''), emptyStore)"
  by (simp add: indexDocument_def clientDown_def storeit_def)

lemma embeddingDown_fields:
  "createAdminClient embeddingDown t = None"
  "configured embeddingDown"
  "bucketId embeddingDown = ''uploads''"
  "getFileDownload embeddingDown t b ''notes.txt'' = Inr threeChunkFile"
  "toStringUtf8 embeddingDown = asciiText"
  "embedQuery embeddingDown t x = Inl (Rejected ''503 Service Unavailable'')"
  by (simp_all add: embeddingDown_def storeit_def configured_def collectionId_def)

lemma unconfigured_fields:
  "createAdminClient unconfigured t = None"
  "\<not> configured unconfigured"
  "bucketId unconfigured = ''uploads''"
  "getFileDownload unconfigured t b ''notes.txt'' = Inr threeChunkFile"
  "toStringUtf8 unconfigured = asciiText"
  "embedQuery unconfigured t x = Inr [real (length x)]"
  by (simp_all add: unconfigured_def storeit_def configured_def collectionId_def)

text \<open>
  C10. With the collection variable unset (or empty) and a file whose extracted
  text is not empty, \<open>indexDocument\<close> downloads the file, hands the first chunk, and
  only that one, to the embedding model, and returns: no write is attempted, the
  collection is what it was, and the caller sees a normal return, whether the
  embedding succeeded or not.
\<close>

theorem indexDocument_unconfigured_writes_nothing:
  assumes "createAdminClient e (tick w) = None"
    and "\<not> configured e"
    and "getFileDownload e (tick w) (bucketId e) bucketFileId = Inr fileBuffer"
    and "extractTextFromFile e fileBuffer mimeType = Inr s"
    and "s \<noteq> []"
  shows "indexDocument e fid bucketFileId mimeType w
           = (Inr (), record_call (EmbedQuery (take 1000 s))
                        (record_call (GetFileDownload (bucketId e) bucketFileId) w))
         \<and> documents (snd (indexDocument e fid bucketFileId mimeType w)) = documents w
         \<and> attempted (calls (snd (indexDocument e fid bucketFileId mimeType w))) = attempted (calls w)
         \<and> embedded (calls (snd (indexDocument e fid bucketFileId mimeType w)))
             = embedded (calls w) @ [take 1000 s]"
proof -
  let ?w1 = "record_call (GetFileDownload (bucketId e) bucketFileId) w"
  let ?w2 = "record_call (EmbedQuery (take 1000 s)) ?w1"
  have "snd (indexChunks e fid (chunks s) ?w1) = ?w2"
    using assms(2) assms(5)
    by (cases "embedQuery e (tick ?w1) (take 1000 s)") (simp_all add: chunks_nonempty)
  then have "indexDocument e fid bucketFileId mimeType w = (Inr (), ?w2)"
    using indexDocument_catch [OF assms(1)] indexBody_extracted [OF assms(3) assms(4)]
    by simp
  then show ?thesis
    by (simp add: record_call_frame embedded_append attempted_append)
qed

theorem indexDocument_unconfigured_writes_nothing_witness:
  "indexDocument unconfigured ''fileA'' ''notes.txt'' ''text/plain'' twoTenants
     = (Inr (), \<lparr>documents = [docA, docB],
                 calls = [GetFileDownload ''uploads'' ''notes.txt'',
                          EmbedQuery (replicate 1000 CHR ''a'')]\<rparr>)
   \<and> length (chunks (asciiText threeChunkFile)) = 3"
proof -
  have "createAdminClient unconfigured (tick twoTenants) = None"
    and "\<not> configured unconfigured"
    and "getFileDownload unconfigured (tick twoTenants) (bucketId unconfigured) ''notes.txt''
           = Inr threeChunkFile"
    and "extractTextFromFile unconfigured threeChunkFile ''text/plain'' = Inr (asciiText threeChunkFile)"
    and "asciiText threeChunkFile \<noteq> []"
    by (simp_all add: unconfigured_fields extract_plain_text threeChunkFile_text)
  from indexDocument_unconfigured_writes_nothing [OF this, of "''fileA''"]
  show ?thesis
    by (simp add: threeChunkFile_text threeChunkFile_chunks [simplified threeChunkFile_text]
          record_call_def twoTenants_def unconfigured_fields)
qed


section \<open>Search\<close>

lemma sublist_prepend: "sublist xs ys \<Longrightarrow> sublist xs (ps @ ys)"
proof -
  assume "sublist xs ys"
  then obtain qs ss where "ys = qs @ xs @ ss"
    by (auto simp: sublist_def)
  then have "ps @ ys = (ps @ qs) @ xs @ ss"
    by simp
  then show ?thesis
    by (simp only: sublist_appendI)
qed

lemma sublist_join: "x \<in> set xs \<Longrightarrow> sublist x (join sep xs)"
proof (induction sep xs rule: join.induct)
  case (1 sep)
  then show ?case by simp
next
  case (2 sep y)
  then show ?case by simp
next
  case (3 sep y z zs)
  show ?case
  proof (cases "x = y")
    case True
    then show ?thesis by simp
  next
    case False
    with 3 have "sublist x (join sep (z # zs))"
      by simp
    then have "sublist x ((y @ sep) @ join sep (z # zs))"
      by (rule sublist_prepend)
    then show ?thesis by simp
  qed
qed

text \<open>The tool when the collection is configured and both awaited calls succeed.\<close>

lemma search_run:
  assumes "createAdminClient e (tick w) = None"
    and "configured e"
    and "embedQuery e (tick w) query = Inr v"
    and "listDocuments e (Suc (tick w)) (documents w) query = Inr results"
  shows "searchFileContentTool e query w
           = (Inr (if relevantContent results = []
                   then ''No relevant content found in documents.''
                   else relevantContent results),
              record_call (ListDocuments (databaseId e) (collectionId e) query)
                (record_call (EmbedQuery query) w))"
  using assms
  by (simp add: searchFileContentTool_def searchBody_def record_call_def tick_def Let_def)

lemma storeit_listing:
  "listDocuments storeit t ds q = Inr (filter (\<lambda>d. sublist q (content d)) ds)"
  "databaseId storeit = ''storeit''"
  "collectionId storeit = ''file_embeddings''"
  by (simp_all add: storeit_def collectionId_def)

text \<open>
  C1. The tool takes a query and nothing else, and asks the store for one thing,
  the documents whose content contains the query. When the collection is
  configured and both calls succeed, the content of every document the store
  lists is a substring of the returned string, whichever file, and so whichever
  user, the document belongs to.
\<close>

theorem search_returns_every_listed_content:
  assumes "createAdminClient e (tick w) = None"
    and "configured e"
    and "embedQuery e (tick w) query = Inr v"
    and "listDocuments e (Suc (tick w)) (documents w) query = Inr results"
    and "d \<in> set results"
  shows "\<exists>r. fst (searchFileContentTool e query w) = Inr r \<and> sublist (content d) r"
proof (cases "relevantContent results = []")
  case True
  from assms(5) have "sublist (content d) (relevantContent results)"
    by (simp add: relevantContent_def sublist_join)
  with True have "content d = []"
    by simp
  with search_run [OF assms(1-4)] True show ?thesis
    by simp
next
  case False
  from assms(5) have "sublist (content d) (relevantContent results)"
    by (simp add: relevantContent_def sublist_join)
  with search_run [OF assms(1-4)] False show ?thesis
    by simp
qed

theorem search_returns_every_listed_content_witness:
  "fst (searchFileContentTool storeit ''notes'' twoTenants)
     = Inr (''alpha meeting notes'' @ separator @ ''beta salary notes'')
   \<and> sublist (content docB) (''alpha meeting notes'' @ separator @ ''beta salary notes'')
   \<and> fileId docB = ''fileB''"
proof -
  have l: "listDocuments storeit (Suc (tick twoTenants)) (documents twoTenants) ''notes''
             = Inr [docA, docB]"
    by (simp add: storeit_listing twoTenants_def docA_def docB_def sublist_Cons_right)
  have "createAdminClient storeit (tick twoTenants) = None"
    and "configured storeit"
    and "embedQuery storeit (tick twoTenants) ''notes'' = Inr [real (length ''notes'')]"
    and "docB \<in> set [docA, docB]"
    by (simp_all add: storeit_fields)
  from search_returns_every_listed_content [OF this(1-3) l this(4)]
  obtain r where r: "fst (searchFileContentTool storeit ''notes'' twoTenants) = Inr r"
      "sublist (content docB) r"
    by blast
  have "fst (searchFileContentTool storeit ''notes'' twoTenants)
          = Inr (''alpha meeting notes'' @ separator @ ''beta salary notes'')"
    using search_run [OF \<open>createAdminClient storeit (tick twoTenants) = None\<close>
        \<open>configured storeit\<close>
        \<open>embedQuery storeit (tick twoTenants) ''notes'' = Inr [real (length ''notes'')]\<close> l]
    by (simp add: relevantContent_def docA_def docB_def)
  with r show ?thesis
    by (simp add: docB_def)
qed

text \<open>
  C1, as the specification states it, fails in a store that holds one chunk of a
  file of user A and one chunk of a file of user B: a query made on behalf of the
  user whose accessible files are \<open>{fileA}\<close> returns the content of the chunk of
  \<open>fileB\<close>.
\<close>

theorem search_isolation_counterexample:
  "documents twoTenants = [docA, docB]
   \<and> fileId docA = ''fileA'' \<and> content docA = ''alpha meeting notes''
   \<and> fileId docB = ''fileB'' \<and> content docB = ''beta salary notes''
   \<and> fileId docB \<notin> {''fileA''}
   \<and> fst (searchFileContentTool storeit ''salary'' twoTenants) = Inr ''beta salary notes''"
proof -
  have l: "listDocuments storeit (Suc (tick twoTenants)) (documents twoTenants) ''salary''
             = Inr [docB]"
    by (simp add: storeit_listing twoTenants_def docA_def docB_def sublist_Cons_right)
  have "createAdminClient storeit (tick twoTenants) = None"
    and "configured storeit"
    and "embedQuery storeit (tick twoTenants) ''salary'' = Inr [real (length ''salary'')]"
    by (simp_all add: storeit_fields)
  from search_run [OF this l]
  have "fst (searchFileContentTool storeit ''salary'' twoTenants) = Inr ''beta salary notes''"
    by (simp add: relevantContent_def docB_def)
  then show ?thesis
    by (simp add: twoTenants_def docA_def docB_def)
qed


text \<open>
  C2. The tool has no \<open>topK\<close> and computes no score; the embedded query is not used
  in the listing. When the collection is configured and both calls succeed, the
  result is one string: the contents of all the documents the store lists for
  "content contains the query", in the order the store lists them, joined by a
  line of three dashes (the "no relevant content" message when that string is
  empty); the two calls made are the embedding of the query and the listing.
\<close>

theorem search_returns_joined_listing:
  assumes "createAdminClient e (tick w) = None"
    and "configured e"
    and "embedQuery e (tick w) query = Inr v"
    and "listDocuments e (Suc (tick w)) (documents w) query = Inr results"
  shows "fst (searchFileContentTool e query w)
           = Inr (if join separator (map content results) = []
                  then ''No relevant content found in documents.''
                  else join separator (map content results))
         \<and> documents (snd (searchFileContentTool e query w)) = documents w
         \<and> calls (snd (searchFileContentTool e query w))
             = calls w @ [EmbedQuery query, ListDocuments (databaseId e) (collectionId e) query]"
  using search_run [OF assms]
  by (simp add: relevantContent_def record_call_def)

theorem search_returns_joined_listing_witness:
  "fst (searchFileContentTool storeit ''notes'' twoTenants)
     = Inr (''alpha meeting notes'' @ separator @ ''beta salary notes'')
   \<and> documents (snd (searchFileContentTool storeit ''notes'' twoTenants)) = [docA, docB]
   \<and> calls (snd (searchFileContentTool storeit ''notes'' twoTenants))
       = [EmbedQuery ''notes'', ListDocuments ''storeit'' ''file_embeddings'' ''notes'']"
proof -
  have "createAdminClient storeit (tick twoTenants) = None"
    and "configured storeit"
    and "embedQuery storeit (tick twoTenants) ''notes'' = Inr [real (length ''notes'')]"
    and "listDocuments storeit (Suc (tick twoTenants)) (documents twoTenants) ''notes''
           = Inr [docA, docB]"
    by (simp_all add: storeit_fields storeit_listing twoTenants_def docA_def docB_def
          sublist_Cons_right)
  from search_returns_joined_listing [OF this]
  show ?thesis
    by (simp add: storeit_listing twoTenants_def docA_def docB_def)
qed

text \<open>
  C2, as the specification states it, fails in a store of six chunks that all
  contain the query: with \<open>topK = 5\<close>, the default of the specification, six
  contents are listed and all six are returned, as one string that carries no
  score.
\<close>

theorem search_topK_counterexample:
  "fst (searchBody storeit ''report'' sixReports) = Inr (documents sixReports)
   \<and> length (documents sixReports) = 6
   \<and> \<not> length (documents sixReports) \<le> 5
   \<and> fst (searchFileContentTool storeit ''report'' sixReports)
       = Inr (join separator
               [''report 1'', ''report 2'', ''report 3'', ''report 4'', ''report 5'', ''report 6''])"
proof -
  have l: "listDocuments storeit (Suc (tick sixReports)) (documents sixReports) ''report''
             = Inr (documents sixReports)"
    by (simp add: storeit_listing sixReports_def report_def sublist_Cons_right)
  have c: "createAdminClient storeit (tick sixReports) = None"
    and g: "configured storeit"
    and q: "embedQuery storeit (tick sixReports) ''report'' = Inr [real (length ''report'')]"
    by (simp_all add: storeit_fields)
  have "fst (searchBody storeit ''report'' sixReports) = Inr (documents sixReports)"
    using q l by (simp add: searchBody_def record_call_def tick_def)
  moreover have "length (documents sixReports) = 6"
    by (simp add: sixReports_def)
  moreover have "fst (searchFileContentTool storeit ''report'' sixReports)
       = Inr (join separator
               [''report 1'', ''report 2'', ''report 3'', ''report 4'', ''report 5'', ''report 6''])"
    using search_run [OF c g q l]
    by (simp add: relevantContent_def sixReports_def report_def)
  ultimately show ?thesis by simp
qed

text \<open>
  C8. When the collection is configured, the query is embedded and the store lists
  no document for it, the tool returns the fixed, non-empty message
  "No relevant content found in documents.".
\<close>

theorem search_nothing_found:
  assumes "createAdminClient e (tick w) = None"
    and "configured e"
    and "embedQuery e (tick w) query = Inr v"
    and "listDocuments e (Suc (tick w)) (documents w) query = Inr []"
  shows "fst (searchFileContentTool e query w) = Inr ''No relevant content found in documents.''
         \<and> ''No relevant content found in documents.'' \<noteq> []"
  using search_run [OF assms]
  by (simp add: relevantContent_def)

theorem search_nothing_found_witness:
  "listDocuments storeit (Suc (tick twoTenants)) (documents twoTenants) ''invoice'' = Inr []
   \<and> fst (searchFileContentTool storeit ''invoice'' twoTenants)
       = Inr ''No relevant content found in documents.''"
proof -
  have "createAdminClient storeit (tick twoTenants) = None"
    and "configured storeit"
    and "embedQuery storeit (tick twoTenants) ''invoice'' = Inr [real (length ''invoice'')]"
    and "listDocuments storeit (Suc (tick twoTenants)) (documents twoTenants) ''invoice'' = Inr []"
    by (simp_all add: storeit_fields storeit_listing twoTenants_def docA_def docB_def
          sublist_Cons_right)
  from search_nothing_found [OF this] this(4)
  show ?thesis by simp
qed

text \<open>
  What the tool does achieve: once the admin client is there, it always returns a
  string. With the collection variable unset or empty it returns
  "Vector search not configured." and makes no call: the state is returned as it
  was. With the collection configured, a rejected embedding, or a rejected
  listing after the embedding, gives "Failed to search document content.".
\<close>

lemma searchFileContentTool_after_client:
  assumes "createAdminClient e (tick w) = None"
  shows "(\<exists>r. fst (searchFileContentTool e query w) = Inr r)
         \<and> (\<not> configured e \<longrightarrow>
              searchFileContentTool e query w = (Inr ''Vector search not configured.'', w))
         \<and> (configured e \<and> (\<exists>err. embedQuery e (tick w) query = Inl err) \<longrightarrow>
              fst (searchFileContentTool e query w) = Inr ''Failed to search document content.'')
         \<and> (configured e \<and> (\<exists>v. embedQuery e (tick w) query = Inr v)
              \<and> (\<exists>err. listDocuments e (Suc (tick w)) (documents w) query = Inl err) \<longrightarrow>
              fst (searchFileContentTool e query w) = Inr ''Failed to search document content.'')"
proof -
  have "\<exists>r. fst (searchFileContentTool e query w) = Inr r"
    using assms
    by (cases "searchBody e query w")
       (simp add: searchFileContentTool_def split: sum.splits)
  moreover have "\<not> configured e \<longrightarrow>
      searchFileContentTool e query w = (Inr ''Vector search not configured.'', w)"
    using assms by (simp add: searchFileContentTool_def)
  moreover have "configured e \<and> (\<exists>err. embedQuery e (tick w) query = Inl err) \<longrightarrow>
      fst (searchFileContentTool e query w) = Inr ''Failed to search document content.''"
    using assms by (auto simp: searchFileContentTool_def searchBody_def)
  moreover have "configured e \<and> (\<exists>v. embedQuery e (tick w) query = Inr v)
      \<and> (\<exists>err. listDocuments e (Suc (tick w)) (documents w) query = Inl err) \<longrightarrow>
      fst (searchFileContentTool e query w) = Inr ''Failed to search document content.''"
    using assms
    by (auto simp: searchFileContentTool_def searchBody_def record_call_def tick_def)
  ultimately show ?thesis by blast
qed

lemma searchFileContentTool_error_paths:
  "searchFileContentTool unconfigured ''salary'' twoTenants
     = (Inr ''Vector search not configured.'', twoTenants)
   \<and> fst (searchFileContentTool embeddingDown ''salary'' twoTenants)
       = Inr ''Failed to search document content.''
   \<and> fst (searchFileContentTool listingDown ''salary'' twoTenants)
       = Inr ''Failed to search document content.''"
proof -
  have "searchFileContentTool unconfigured ''salary'' twoTenants
          = (Inr ''Vector search not configured.'', twoTenants)"
    using searchFileContentTool_after_client [of unconfigured twoTenants "''salary''"]
    by (simp add: unconfigured_fields)
  moreover have "fst (searchFileContentTool embeddingDown ''salary'' twoTenants)
          = Inr ''Failed to search document content.''"
    using searchFileContentTool_after_client [of embeddingDown twoTenants "''salary''"]
    by (simp add: embeddingDown_fields)
  moreover have "fst (searchFileContentTool listingDown ''salary'' twoTenants)
          = Inr ''Failed to search document content.''"
    using searchFileContentTool_after_client [of listingDown twoTenants "''salary''"]
    by (simp add: listingDown_def storeit_def configured_def collectionId_def)
  ultimately show ?thesis by blast
qed

text \<open>
  C9. The tool answers every failure it foresees with a string, but
  \<open>createAdminClient()\<close> is awaited on its first line, before the test of the
  collection variable and before the \<open>try\<close>: when that call rejects, the tool
  propagates the rejection and returns no string, whether or not the collection
  is configured.
\<close>

theorem searchFileContentTool_client_rejection:
  "searchFileContentTool clientDown ''salary'' twoTenants
     = (Inl (Rejected ''Invalid endpoint URL''), twoTenants)"
  by (simp add: searchFileContentTool_def clientDown_def storeit_def)

end
